theory Spec2Isabelle
  imports Main "HOL-Library.Sublist"
begin

section \<open>Python strings\<close>

text \<open>
  A Python \<open>str\<close> is a sequence of Unicode code points: \<open>line[0]\<close>, \<open>claim[:100]\<close>,
  \<open>strip\<close>, \<open>split\<close> and the comparison of two strings all work code point by code point.
  The model therefore represents a string by the list of its code points. \<open>lit\<close> embeds an
  ASCII literal; the few non-ASCII characters of the source are written as their code
  points: U+2022 (bullet) is 8226, U+1F50D (magnifying glass) is 128269, U+1F4C5 (calendar)
  is 128197, U+1F4CA (bar chart) is 128202, U+1F534 (red circle) is 128308, U+1F7E1 (yellow
  circle) is 128993 and U+1F7E2 (green circle) is 128994.
\<close>

type_synonym pystr = "nat list"

definition lit :: "string \<Rightarrow> pystr" where
  "lit s = map of_char s"

abbreviation nl :: pystr where
  "nl \<equiv> [10]"

text \<open>
  \<open>str.isspace\<close>, the white space removed by \<open>str.strip()\<close> and the class \<open>\s\<close> of the
  \<open>re\<close> module (on \<open>str\<close> patterns) are one and the same table in CPython.
\<close>

definition isspace :: "nat \<Rightarrow> bool" where
  "isspace c = ((9 \<le> c \<and> c \<le> 13) \<or> (28 \<le> c \<and> c \<le> 32) \<or> c = 133 \<or> c = 160 \<or> c = 5760
     \<or> (8192 \<le> c \<and> c \<le> 8202) \<or> c = 8232 \<or> c = 8233 \<or> c = 8239 \<or> c = 8287 \<or> c = 12288)"

definition strip :: "pystr \<Rightarrow> pystr" where
  "strip s = rev (dropWhile isspace (rev (dropWhile isspace s)))"

text \<open>
  \<open>s.split(sep)\<close> for a non-empty separator: the string is cut at every occurrence of
  \<open>sep\<close>, found from left to right without overlap; \<open>acc\<close> holds the current piece,
  reversed. (Python raises \<open>ValueError\<close> on an empty separator; the source only splits
  at the literals \<open>'\n'\<close>, \<open>'//'\<close> and \<open>'/'\<close>.)
\<close>

fun split_acc :: "pystr \<Rightarrow> pystr \<Rightarrow> pystr \<Rightarrow> pystr list" where
  "split_acc sep acc [] = [rev acc]"
| "split_acc sep acc (c # cs) =
     (if sep \<noteq> [] \<and> prefix sep (c # cs)
      then rev acc # split_acc sep [] (drop (length sep - 1) cs)
      else split_acc sep (c # acc) cs)"

definition split :: "pystr \<Rightarrow> pystr \<Rightarrow> pystr list" where
  "split s sep = split_acc sep [] s"

text \<open>\<open>sep.join(xs)\<close>.\<close>

fun join :: "pystr \<Rightarrow> pystr list \<Rightarrow> pystr" where
  "join sep [] = []"
| "join sep [x] = x"
| "join sep (x # y # ys) = x @ sep @ join sep (y # ys)"

section \<open>The external collaborators\<close>

text \<open>
  Every call to an external dependency either returns or raises; every exception the
  source can meet is an instance of \<open>Exception\<close> and is caught by the enclosing
  \<open>except Exception\<close>. \<open>IndexError\<close> is the one the code can raise by itself (a list
  index out of range); \<open>DependencyError\<close> stands for anything raised by a collaborator.
\<close>

datatype exn = IndexError | DependencyError

text \<open>
  One entry of \<open>organic_results\<close>: the code looks at the keys \<open>"date"\<close> and \<open>"link"\<close>
  only, and both may be missing.
\<close>

record search_result =
  result_date :: "pystr option"
  result_link :: "pystr option"

text \<open>
  The answer of \<open>requests.get\<close>: its status code and what \<open>response.json()\<close> gives.
  \<open>Inr None\<close> is a decoded body without the key \<open>"organic_results"\<close>, \<open>Inr (Some rs)\<close> a
  body that has it, and \<open>Inl\<close> a body whose decoding or traversal raises (no JSON, or JSON
  of another shape than the provider documents).
\<close>

record response =
  status_code :: int
  json :: "exn + search_result list option"

text \<open>
  The process-wide collaborators of \<open>orchestrator.py\<close>, as one record:
  \<^item> \<open>generate_content e prompt\<close> is \<open>model.generate_content(prompt).text\<close>;
  \<^item> \<open>embedder\<close> and \<open>faiss_index\<close> are \<open>None\<close> when loading failed at start-up;
    \<open>the (embedder e) claim\<close> is \<open>embedder.encode([claim])\<close> and
    \<open>the (faiss_index e) v k\<close> is \<open>indices[0]\<close> of \<open>faiss_index.search(v, k)\<close>;
  \<^item> \<open>knowledge_base\<close> is the list of passages;
  \<^item> \<open>serpapi_key\<close> is \<open>os.getenv("SERPAPI_KEY")\<close>;
  \<^item> \<open>requests_get e q key\<close> is the search request with query \<open>q\<close> and credential \<open>key\<close>
    (the other parameters are constants);
  \<^item> \<open>isdigit_ext\<close> and \<open>isdecimal_ext\<close> are \<open>str.isdigit\<close> and the class \<open>\d\<close> of the
    \<open>re\<close> module on the code points from 128 on, which depend on the Unicode version
    of the interpreter.
\<close>

record 'v env =
  generate_content :: "pystr \<Rightarrow> exn + pystr"
  embedder :: "(pystr \<Rightarrow> exn + 'v) option"
  faiss_index :: "('v \<Rightarrow> nat \<Rightarrow> exn + int list) option"
  knowledge_base :: "pystr list"
  serpapi_key :: "pystr option"
  requests_get :: "pystr \<Rightarrow> pystr \<Rightarrow> exn + response"
  isdigit_ext :: "nat \<Rightarrow> bool"
  isdecimal_ext :: "nat \<Rightarrow> bool"

definition isdigit :: "'v env \<Rightarrow> nat \<Rightarrow> bool" where
  "isdigit e c = (if c < 128 then 48 \<le> c \<and> c \<le> 57 else isdigit_ext e c)"

definition isdecimal :: "'v env \<Rightarrow> nat \<Rightarrow> bool" where
  "isdecimal e c = (if c < 128 then 48 \<le> c \<and> c \<le> 57 else isdecimal_ext e c)"

section \<open>Claim extraction\<close>

definition extract_prompt :: "pystr \<Rightarrow> pystr" where
  \<open>extract_prompt text =
     nl @
     lit ''Extract the main verifiable claims from this text. Focus on factual statements that can be fact-checked.'' @ nl @
     lit ''Return ONLY a numbered list of claims, nothing else:'' @ nl @
     nl @
     lit ''Text: "'' @ text @ lit ''"'' @ nl @
     nl @
     lit ''Claims:'' @ nl\<close>

text \<open>
  \<open>re.sub(r'^\d+\.\s*', '', line)\<close>: without \<open>re.MULTILINE\<close> the anchor matches at the
  start of the string only, so at most one match is replaced. \<open>\d+\<close> takes the whole
  leading run of decimal digits (a period is not a digit, so no shorter run can be
  followed by one), a period must follow, and \<open>\s*\<close> takes the white space after it.
\<close>

definition sub_numbering :: "'v env \<Rightarrow> pystr \<Rightarrow> pystr" where
  "sub_numbering e s =
     (case dropWhile (isdecimal e) s of
        [] \<Rightarrow> s
      | c # r \<Rightarrow> if takeWhile (isdecimal e) s \<noteq> [] \<and> c = 46 then dropWhile isspace r else s)"

text \<open>\<open>re.sub(r'^-\s*', '', claim)\<close>.\<close>

definition sub_dash :: "pystr \<Rightarrow> pystr" where
  "sub_dash s = (case s of [] \<Rightarrow> s | c # r \<Rightarrow> if c = 45 then dropWhile isspace r else s)"

text \<open>The test of line 58: \<open>line and (line[0].isdigit() or line.startswith('-'))\<close>.\<close>

definition accepts :: "'v env \<Rightarrow> pystr \<Rightarrow> bool" where
  "accepts e line = (case line of [] \<Rightarrow> False | c # r \<Rightarrow> isdigit e c \<or> c = 45)"

definition clean :: "'v env \<Rightarrow> pystr \<Rightarrow> pystr" where
  "clean e line = strip (sub_dash (sub_numbering e line))"

text \<open>The loop over the lines of the response (lines 55 to 62).\<close>

fun parse_lines :: "'v env \<Rightarrow> pystr list \<Rightarrow> pystr list" where
  "parse_lines e [] = []"
| "parse_lines e (l # ls) =
     (let line = strip l
      in if accepts e line then clean e line # parse_lines e ls else parse_lines e ls)"

definition parse_claims :: "'v env \<Rightarrow> pystr \<Rightarrow> pystr list" where
  "parse_claims e response_text = parse_lines e (split (strip response_text) nl)"

text \<open>
  \<open>extract_claims\<close>: the whole body is inside \<open>try\<close>; the only statement that can raise
  is the call of the reasoning service, and the handler returns \<open>[text]\<close>.
\<close>

definition extract_claims :: "'v env \<Rightarrow> pystr \<Rightarrow> pystr list" where
  "extract_claims e text =
     (case generate_content e (extract_prompt text) of
        Inl err \<Rightarrow> [text]
      | Inr response_text \<Rightarrow> parse_claims e response_text)"

section \<open>Evidence retrieval\<close>

text \<open>
  \<open>xs[i]\<close> on a Python list: an index from \<open>-len(xs)\<close> to \<open>-1\<close> counts from the end,
  and an index outside \<open>-len(xs) .. len(xs) - 1\<close> raises \<open>IndexError\<close>.
\<close>

definition getitem :: "'a list \<Rightarrow> int \<Rightarrow> exn + 'a" where
  "getitem xs i =
     (let n = int (length xs)
      in if 0 \<le> i \<and> i < n then Inr (xs ! nat i)
         else if - n \<le> i \<and> i < 0 then Inr (xs ! nat (n + i))
         else Inl IndexError)"

text \<open>The inner loop (lines 88 to 90), over the neighbour indices of one claim.\<close>

fun append_contexts :: "pystr list \<Rightarrow> pystr list \<Rightarrow> int list \<Rightarrow> exn + pystr list" where
  "append_contexts kb all_context [] = Inr all_context"
| "append_contexts kb all_context (idx # indices) =
     (if idx < int (length kb)
      then (case getitem kb idx of
              Inl err \<Rightarrow> Inl err
            | Inr passage \<Rightarrow> append_contexts kb (all_context @ [passage]) indices)
      else append_contexts kb all_context indices)"

text \<open>The outer loop (lines 79 to 90), over the claims.\<close>

fun retrieve_loop ::
  "(pystr \<Rightarrow> exn + 'v) \<Rightarrow> ('v \<Rightarrow> nat \<Rightarrow> exn + int list) \<Rightarrow> pystr list \<Rightarrow>
   pystr list \<Rightarrow> pystr list \<Rightarrow> exn + pystr list" where
  "retrieve_loop encode search kb all_context [] = Inr all_context"
| "retrieve_loop encode search kb all_context (claim # claims) =
     (case encode claim of
        Inl err \<Rightarrow> Inl err
      | Inr claim_embedding \<Rightarrow>
          (case search claim_embedding (min 3 (length kb)) of
             Inl err \<Rightarrow> Inl err
           | Inr indices \<Rightarrow>
               (case append_contexts kb all_context indices of
                  Inl err \<Rightarrow> Inl err
                | Inr all_context' \<Rightarrow> retrieve_loop encode search kb all_context' claims)))"

text \<open>
  \<open>retrieve_relevant_context\<close>: the guard of line 73, then the loops inside \<open>try\<close>; the
  handler drops whatever was gathered and returns the empty list.
\<close>

definition retrieve_relevant_context :: "'v env \<Rightarrow> pystr list \<Rightarrow> pystr list" where
  "retrieve_relevant_context e claims =
     (case embedder e of
        None \<Rightarrow> []
      | Some encode \<Rightarrow>
          (case faiss_index e of
             None \<Rightarrow> []
           | Some search \<Rightarrow>
               if knowledge_base e = [] then []
               else (case retrieve_loop encode search (knowledge_base e) [] claims of
                       Inl err \<Rightarrow> []
                     | Inr all_context \<Rightarrow> all_context)))"

section \<open>Provenance\<close>

record forensics =
  first_seen :: pystr
  spread_info :: pystr

text \<open>
  Python compares two strings code point by code point; a proper prefix is smaller.
\<close>

fun str_lt :: "pystr \<Rightarrow> pystr \<Rightarrow> bool" where
  "str_lt [] [] = False"
| "str_lt [] (y # ys) = True"
| "str_lt (x # xs) [] = False"
| "str_lt (x # xs) (y # ys) = (x < y \<or> (x = y \<and> str_lt xs ys))"

text \<open>
  \<open>min\<close> walks the list with the smallest element met so far and replaces it by a
  later one only when that one is strictly smaller.
\<close>

fun min_from :: "pystr \<Rightarrow> pystr list \<Rightarrow> pystr" where
  "min_from m [] = m"
| "min_from m (d # ds) = min_from (if str_lt d m then d else m) ds"

text \<open>Line 136: \<open>"Recently" if not dates else min(dates)\<close>.\<close>

definition earliest :: "pystr list \<Rightarrow> pystr" where
  "earliest dates = (case dates of [] \<Rightarrow> lit ''Recently'' | d # ds \<Rightarrow> min_from d ds)"

text \<open>
  Line 132: \<open>link.split("//")[-1].split("/")[0]\<close>. A split is never empty, so both
  selections are defined.
\<close>

definition domain_of :: "pystr \<Rightarrow> pystr" where
  "domain_of link_text = hd (split (last (split link_text (lit ''//''))) (lit ''/''))"

text \<open>The two lists filled by the loop of lines 125 to 133.\<close>

definition dates_of :: "search_result list \<Rightarrow> pystr list" where
  "dates_of results = [d. r \<leftarrow> results, d \<leftarrow> (case result_date r of None \<Rightarrow> [] | Some d \<Rightarrow> [d])]"

definition sources_of :: "search_result list \<Rightarrow> pystr list" where
  "sources_of results =
     [domain_of l. r \<leftarrow> results, l \<leftarrow> (case result_link r of None \<Rightarrow> [] | Some l \<Rightarrow> [l])]"

text \<open>Lines 139 to 145.\<close>

definition spread_pattern :: "pystr list \<Rightarrow> pystr" where
  "spread_pattern sources =
     (let unique_sources = card (set (take 5 sources))
      in if unique_sources > 3 then lit ''Widely shared across multiple platforms''
         else if unique_sources > 1 then lit ''Shared on a few platforms''
         else lit ''Limited sharing detected'')"

definition no_credential :: forensics where
  "no_credential = \<lparr>first_seen = lit ''Unknown'', spread_info = lit ''Unable to trace origin''\<rparr>"

definition no_pattern :: forensics where
  "no_pattern = \<lparr>first_seen = lit ''Unknown'', spread_info = lit ''Unable to trace spread pattern''\<rparr>"

definition search_unavailable :: forensics where
  "search_unavailable = \<lparr>first_seen = lit ''Unknown'', spread_info = lit ''Search unavailable''\<rparr>"

text \<open>
  \<open>search_claim_origin\<close>. \<open>not serpapi_key\<close> holds for \<open>None\<close> and for the empty string.
  The query is the first 100 characters of the claim between double quotes. Everything
  is inside \<open>try\<close>: an exception of the request or of the decoding of its body ends in
  the handler of line 154.
\<close>

definition search_claim_origin :: "'v env \<Rightarrow> pystr \<Rightarrow> forensics" where
  "search_claim_origin e claim =
     (case serpapi_key e of
        None \<Rightarrow> no_credential
      | Some key \<Rightarrow>
          if key = [] then no_credential
          else (case requests_get e ([34] @ take 100 claim @ [34]) key of
                  Inl err \<Rightarrow> search_unavailable
                | Inr resp \<Rightarrow>
                    if status_code resp = 200
                    then (case json resp of
                            Inl err \<Rightarrow> search_unavailable
                          | Inr None \<Rightarrow> no_pattern
                          | Inr (Some results) \<Rightarrow>
                              \<lparr>first_seen = earliest (dates_of results),
                               spread_info = spread_pattern (sources_of results)\<rparr>)
                    else no_pattern))"

section \<open>Synthesis\<close>

text \<open>
  The prompt of lines 164 to 202. The forensics record always carries both fields, so
  no \<open>get\<close> falls back to its default.
\<close>

definition synthesis_prompt :: "pystr list \<Rightarrow> pystr list \<Rightarrow> forensics \<Rightarrow> pystr \<Rightarrow> pystr" where
  \<open>synthesis_prompt claims context fo original_text =
     (let context_text = (if context \<noteq> [] then join nl (take 3 context)
                          else lit ''No specific fact-check data available'');
          claims_text = join nl (map (\<lambda>claim. lit ''- '' @ claim) claims)
      in
     nl @
     lit ''You are SatyaTrace, a fact-checking assistant. Analyze the following information and provide a structured response.'' @ nl @
     nl @
     lit ''ORIGINAL MESSAGE: "'' @ original_text @ lit ''"'' @ nl @
     nl @
     lit ''KEY CLAIMS:'' @ nl @
     claims_text @ nl @
     nl @
     lit ''RELEVANT FACT-CHECK CONTEXT:'' @ nl @
     context_text @ nl @
     nl @
     lit ''FORENSICS DATA:'' @ nl @
     lit ''- First seen: '' @ first_seen fo @ nl @
     lit ''- Spread pattern: '' @ spread_info fo @ nl @
     nl @
     lit ''Create a response with this EXACT structure:'' @ nl @
     nl @
     lit ''[RISK LEVEL EMOJI] [RISK LEVEL]'' @ nl @
     nl @
     lit ''**The Gist:** [One sentence summary of the claim's accuracy]'' @ nl @
     nl @
     lit ''**Why?**'' @ nl @
     [8226] @ lit '' [Reason 1]'' @ nl @
     [8226] @ lit '' [Reason 2]'' @ nl @
     [8226] @ lit '' [Reason 3 if needed]'' @ nl @
     nl @
     lit ''**'' @ [128269] @ lit '' Trace Report:**'' @ nl @
     [128197] @ lit '' First Seen: '' @ first_seen fo @ nl @
     [128202] @ lit '' How it's Spreading: '' @ spread_info fo @ nl @
     nl @
     lit ''**Action:** [Simple recommendation like "Don't forward this" or "This appears reliable"]'' @ nl @
     nl @
     lit ''RISK LEVELS:'' @ nl @
     lit ''- '' @ [128308] @ lit '' HIGH RISK: False, misleading, or harmful information'' @ nl @
     lit ''- '' @ [128993] @ lit '' MEDIUM RISK: Partially true, needs context, or unverified'' @ nl @
     lit ''- '' @ [128994] @ lit '' LOW RISK: Appears accurate and from reliable sources'' @ nl @
     nl @
     lit ''Keep the response concise and clear.'' @ nl)\<close>

text \<open>The canned report of line 212.\<close>

definition synthesis_fallback :: pystr where
  "synthesis_fallback =
     [128993] @ lit '' MEDIUM RISK'' @ nl @
     nl @
     lit ''**The Gist:** Unable to fully verify this information.'' @ nl @
     nl @
     lit ''**Why?**'' @ nl @
     [8226] @ lit '' Analysis system temporarily unavailable'' @ nl @
     [8226] @ lit '' Recommend checking with trusted sources'' @ nl @
     nl @
     lit ''**Action:** Verify before sharing''"

definition synthesize_response ::
  "'v env \<Rightarrow> pystr list \<Rightarrow> pystr list \<Rightarrow> forensics \<Rightarrow> pystr \<Rightarrow> pystr" where
  "synthesize_response e claims context fo original_text =
     (case generate_content e (synthesis_prompt claims context fo original_text) of
        Inl err \<Rightarrow> synthesis_fallback
      | Inr response_text \<Rightarrow> strip response_text)"

section \<open>The orchestrator\<close>

text \<open>The canned report of line 237.\<close>

definition orchestrator_fallback :: pystr where
  "orchestrator_fallback =
     [128993] @ lit '' MEDIUM RISK'' @ nl @
     nl @
     lit ''**The Gist:** Unable to analyze this message due to technical issues.'' @ nl @
     nl @
     lit ''**Why?**'' @ nl @
     [8226] @ lit '' System temporarily unavailable'' @ nl @
     [8226] @ lit '' Recommend manual verification'' @ nl @
     nl @
     lit ''**Action:** Check with trusted sources before sharing''"

text \<open>
  The statements inside the \<open>try\<close> of \<open>run_analysis\<close> (lines 217 to 233), with the
  exception they may end in as the left summand.
\<close>

definition run_analysis_body :: "'v env \<Rightarrow> pystr \<Rightarrow> exn + pystr" where
  "run_analysis_body e text_in_english =
     (let claims = extract_claims e text_in_english;
          context = retrieve_relevant_context e claims;
          primary_claim = (case claims of [] \<Rightarrow> text_in_english | c # cs \<Rightarrow> c);
          fo = search_claim_origin e primary_claim;
          result = synthesize_response e claims context fo text_in_english
      in Inr result)"

definition run_analysis :: "'v env \<Rightarrow> pystr \<Rightarrow> pystr" where
  "run_analysis e text_in_english =
     (case run_analysis_body e text_in_english of
        Inl err \<Rightarrow> orchestrator_fallback
      | Inr result \<Rightarrow> result)"

section \<open>Report sections\<close>

text \<open>
  \<open>after_first pat s\<close> is what follows the first occurrence of \<open>pat\<close> in \<open>s\<close>, and
  \<open>in_order ps s\<close> says that the strings \<open>ps\<close> occur in \<open>s\<close> one after the other, in this
  order and without overlap.
\<close>

fun after_first :: "pystr \<Rightarrow> pystr \<Rightarrow> pystr option" where
  "after_first pat [] = (if pat = [] then Some [] else None)"
| "after_first pat (c # cs) =
     (if prefix pat (c # cs) then Some (drop (length pat) (c # cs)) else after_first pat cs)"

fun in_order :: "pystr list \<Rightarrow> pystr \<Rightarrow> bool" where
  "in_order [] s = True"
| "in_order (p # ps) s = (case after_first p s of None \<Rightarrow> False | Some rest \<Rightarrow> in_order ps rest)"

text \<open>The four section headers of the report.\<close>

definition gist_header :: pystr where "gist_header = lit ''**The Gist:**''"
definition why_header :: pystr where "why_header = lit ''**Why?**''"
definition trace_header :: pystr where "trace_header = lit ''**'' @ [128269] @ lit '' Trace Report:**''"
definition action_header :: pystr where "action_header = lit ''**Action:**''"

text \<open>
  The prompt that \<open>run_analysis\<close> hands to \<open>synthesize_response\<close>, and so to the
  reasoning service, at its last step.
\<close>

definition final_prompt :: "'v env \<Rightarrow> pystr \<Rightarrow> pystr" where
  "final_prompt e text_in_english =
     (let claims = extract_claims e text_in_english;
          context = retrieve_relevant_context e claims;
          primary_claim = (case claims of [] \<Rightarrow> text_in_english | c # cs \<Rightarrow> c)
      in synthesis_prompt claims context (search_claim_origin e primary_claim) text_in_english)"

section \<open>Example environments\<close>

text \<open>
  Total outage: the reasoning service and the search provider raise on every call, no
  embedder, no index, no corpus, no credential.
\<close>

definition env_outage :: "unit env" where
  "env_outage = \<lparr>generate_content = (\<lambda>prompt. Inl DependencyError), embedder = None,
     faiss_index = None, knowledge_base = [], serpapi_key = None,
     requests_get = (\<lambda>q key. Inl DependencyError),
     isdigit_ext = (\<lambda>c. False), isdecimal_ext = (\<lambda>c. False)\<rparr>"

text \<open>The same, with a reasoning service that answers every prompt with \<open>answer\<close>.\<close>

definition env_answering :: "pystr \<Rightarrow> unit env" where
  "env_answering answer = env_outage\<lparr>generate_content := (\<lambda>prompt. Inr answer)\<rparr>"

section \<open>The line parser as the specification words it\<close>

text \<open>
  The specification accepts a trimmed line that starts with a digit followed by a period
  (read here as a run of digits and then a period), or with a dash.
\<close>

definition spec_accepts :: "'v env \<Rightarrow> pystr \<Rightarrow> bool" where
  "spec_accepts e line =
     ((takeWhile (isdigit e) line \<noteq> [] \<and> prefix [46] (dropWhile (isdigit e) line)) \<or> prefix [45] line)"

text \<open>
  A configured credential, with a search provider that answers every request with
  \<open>resp\<close>; and a configured credential with a provider that raises.
\<close>

definition env_searching :: "response \<Rightarrow> unit env" where
  "env_searching resp =
     env_outage\<lparr>serpapi_key := Some (lit ''k3y''), requests_get := (\<lambda>q key. Inr resp)\<rparr>"

definition env_search_raising :: "unit env" where
  "env_search_raising = env_outage\<lparr>serpapi_key := Some (lit ''k3y'')\<rparr>"

text \<open>Six organic results on five hosts, three of them dated.\<close>

definition example_results :: "search_result list" where
  "example_results =
     [\<lparr>result_date = Some (lit ''2021-03-01''), result_link = Some (lit ''https://a.in/x'')\<rparr>,
      \<lparr>result_date = None, result_link = Some (lit ''https://b.in/'')\<rparr>,
      \<lparr>result_date = Some (lit ''2020-12-24''), result_link = Some (lit ''http://a.in/y/z'')\<rparr>,
      \<lparr>result_date = None, result_link = Some (lit ''c.in'')\<rparr>,
      \<lparr>result_date = Some (lit ''2021-01-05''), result_link = Some (lit ''https://d.in/w'')\<rparr>,
      \<lparr>result_date = None, result_link = Some (lit ''https://e.in/'')\<rparr>]"

text \<open>
  A loaded embedder and a loaded index over the corpus \<open>kb\<close>; the index answers every
  search with the neighbour indices \<open>indices\<close>.
\<close>

definition env_retrieving :: "pystr list \<Rightarrow> int list \<Rightarrow> unit env" where
  "env_retrieving kb indices =
     env_outage\<lparr>embedder := Some (\<lambda>claim. Inr ()), faiss_index := Some (\<lambda>v k. Inr indices),
       knowledge_base := kb\<rparr>"

section \<open>The spread classification as the specification words it\<close>

text \<open>
  The specification classifies by the distinct host names among the first five results
  (the host name of a result being taken from its link as the code does).
\<close>

definition spec_spread :: "search_result list \<Rightarrow> pystr" where
  "spec_spread results =
     (let hosts = set [domain_of l. r \<leftarrow> take 5 results,
                        l \<leftarrow> (case result_link r of None \<Rightarrow> [] | Some l \<Rightarrow> [l])]
      in if card hosts > 3 then lit ''Widely shared across multiple platforms''
         else if card hosts \<ge> 2 then lit ''Shared on a few platforms''
         else lit ''Limited sharing detected'')"

text \<open>Six results on four hosts, the first of them without a link.\<close>

definition unlinked_results :: "search_result list" where
  "unlinked_results =
     [\<lparr>result_date = None, result_link = None\<rparr>,
      \<lparr>result_date = None, result_link = Some (lit ''https://a.in/x'')\<rparr>,
      \<lparr>result_date = None, result_link = Some (lit ''https://b.in/'')\<rparr>,
      \<lparr>result_date = None, result_link = Some (lit ''https://c.in/y'')\<rparr>,
      \<lparr>result_date = None, result_link = Some (lit ''https://c.in/z'')\<rparr>,
      \<lparr>result_date = None, result_link = Some (lit ''https://d.in/w'')\<rparr>]"


section \<open>Properties\<close>

subsection \<open>Ordered occurrence\<close>

lemma after_first_SomeD: "after_first p s = Some r \<Longrightarrow> \<exists>a. s = a @ p @ r"
proof (induction s)
  case Nil
  then show ?case by (auto split: if_splits)
next
  case (Cons c cs)
  show ?case
  proof (cases "prefix p (c # cs)")
    case True
    then obtain z where z: "c # cs = p @ z" by (auto simp: prefix_def)
    from True have "after_first p (c # cs) = Some (drop (length p) (c # cs))" by simp
    with Cons.prems have "r = drop (length p) (p @ z)" by (simp add: z)
    then have "r = z" by simp
    with z show ?thesis by (metis append_Nil)
  next
    case False
    with Cons.prems have "after_first p cs = Some r" by simp
    from Cons.IH[OF this] obtain a where "cs = a @ p @ r" ..
    then have "c # cs = (c # a) @ p @ r" by simp
    then show ?thesis by blast
  qed
qed

lemma after_first_append: "\<exists>r'. after_first p (a @ p @ r) = Some r' \<and> suffix r r'"
proof (induction a)
  case Nil
  show ?case
  proof (cases "p @ r")
    case Nil
    then show ?thesis by simp
  next
    case (Cons c cs)
    then have "after_first p (p @ r) = Some r"
      by (metis after_first.simps(2) append_eq_conv_conj prefixI)
    then show ?thesis by simp
  qed
next
  case (Cons c a)
  from Cons obtain r' where r': "after_first p (a @ p @ r) = Some r'" "suffix r r'" by blast
  show ?case
  proof (cases "prefix p (c # a @ p @ r)")
    case True
    then have "after_first p ((c # a) @ p @ r) = Some (drop (length p) (c # a @ p @ r))" by simp
    moreover have "suffix r (drop (length p) (c # a @ p @ r))"
    proof -
      have "drop (length p) (((c # a) @ p) @ r) = drop (length p) ((c # a) @ p) @ r"
        by (simp del: append_assoc append.simps)
      then show ?thesis by (simp add: suffix_def)
    qed
    ultimately show ?thesis by auto
  next
    case False
    with r' show ?thesis by simp
  qed
qed

lemma after_first_suffix_mono:
  "after_first p r = Some x \<Longrightarrow> suffix r r' \<Longrightarrow> \<exists>x'. after_first p r' = Some x' \<and> suffix x x'"
proof -
  assume a: "after_first p r = Some x" and s: "suffix r r'"
  from after_first_SomeD[OF a] obtain b where b: "r = b @ p @ x" ..
  from s obtain z where "r' = z @ r" by (auto simp: suffix_def)
  with b have "r' = (z @ b) @ p @ x" by simp
  then show ?thesis using after_first_append[of p "z @ b" x] by simp
qed

lemma in_order_suffix_mono: "in_order ps r \<Longrightarrow> suffix r r' \<Longrightarrow> in_order ps r'"
proof (induction ps arbitrary: r r')
  case Nil
  then show ?case by simp
next
  case (Cons p ps)
  from Cons.prems(1) obtain x where x: "after_first p r = Some x" "in_order ps x"
    by (auto split: option.splits)
  from after_first_suffix_mono[OF x(1) Cons.prems(2)] obtain x' where
    x': "after_first p r' = Some x'" "suffix x x'" by blast
  from Cons.IH[OF x(2) x'(2)] x'(1) show ?case by simp
qed

lemma in_order_Cons_iff: "in_order (p # ps) s \<longleftrightarrow> (\<exists>a r. s = a @ p @ r \<and> in_order ps r)"
proof
  assume "in_order (p # ps) s"
  then obtain x where x: "after_first p s = Some x" "in_order ps x" by (auto split: option.splits)
  from after_first_SomeD[OF x(1)] x(2) show "\<exists>a r. s = a @ p @ r \<and> in_order ps r" by blast
next
  assume "\<exists>a r. s = a @ p @ r \<and> in_order ps r"
  then obtain a r where s: "s = a @ p @ r" and r: "in_order ps r" by blast
  from after_first_append[of p a r] obtain r' where r': "after_first p s = Some r'" "suffix r r'"
    using s by blast
  from in_order_suffix_mono[OF r r'(2)] r'(1) show "in_order (p # ps) s" by simp
qed

lemma in_order_4: "in_order [p1, p2, p3, p4] s \<longleftrightarrow> (\<exists>a b c d z. s = a @ p1 @ b @ p2 @ c @ p3 @ d @ p4 @ z)"
  by (simp only: in_order_Cons_iff in_order.simps(1)) (simp, blast)

lemma in_order_3: "in_order [p1, p2, p3] s \<longleftrightarrow> (\<exists>a b c z. s = a @ p1 @ b @ p2 @ c @ p3 @ z)"
  by (simp only: in_order_Cons_iff in_order.simps(1)) (simp, blast)

lemma after_first_set: "after_first p s = Some r \<Longrightarrow> set p \<union> set r \<subseteq> set s"
  by (drule after_first_SomeD) auto

lemma in_order_set: "in_order ps s \<Longrightarrow> p \<in> set ps \<Longrightarrow> set p \<subseteq> set s"
proof (induction ps arbitrary: s)
  case Nil
  then show ?case by simp
next
  case (Cons q qs)
  from Cons.prems(1) obtain x where x: "after_first q s = Some x" "in_order qs x"
    by (auto split: option.splits)
  from after_first_set[OF x(1)] have sub: "set q \<subseteq> set s" "set x \<subseteq> set s" by auto
  show ?case
  proof (cases "p = q")
    case True
    with sub show ?thesis by simp
  next
    case False
    with Cons.prems(2) have "p \<in> set qs" by simp
    from Cons.IH[OF x(2) this] sub show ?thesis by blast
  qed
qed

subsection \<open>The orchestrator\<close>

text \<open>
  The reasoning service is a function of the prompt. Within one run it is called twice,
  once for the extraction and once for the synthesis, and the two prompts are never the
  same string, so the outcomes of the two calls are independent of each other.
\<close>

lemma prompts_differ: "extract_prompt text \<noteq> synthesis_prompt claims context fo original_text"
  by (simp add: extract_prompt_def synthesis_prompt_def Let_def lit_def)

lemma dropWhile_all_iff: "(\<forall>x\<in>set (dropWhile P xs). P x) \<longleftrightarrow> (\<forall>x\<in>set xs. P x)"
proof
  assume a: "\<forall>x\<in>set (dropWhile P xs). P x"
  have "dropWhile P xs = []"
  proof (rule ccontr)
    assume n: "dropWhile P xs \<noteq> []"
    then have "\<not> P (hd (dropWhile P xs))" by (rule hd_dropWhile)
    moreover from n have "hd (dropWhile P xs) \<in> set (dropWhile P xs)" by simp
    ultimately show False using a by blast
  qed
  then show "\<forall>x\<in>set xs. P x" by (simp add: dropWhile_eq_Nil_conv)
next
  assume "\<forall>x\<in>set xs. P x"
  then show "\<forall>x\<in>set (dropWhile P xs). P x" by (blast dest: set_dropWhileD)
qed

lemma strip_Nil_iff: "strip s = [] \<longleftrightarrow> (\<forall>c\<in>set s. isspace c)"
  by (simp add: strip_def dropWhile_eq_Nil_conv dropWhile_all_iff)

lemma run_analysis_eq:
  "run_analysis e text =
     (case generate_content e (final_prompt e text) of
        Inl err \<Rightarrow> synthesis_fallback
      | Inr response_text \<Rightarrow> strip response_text)"
  by (simp add: run_analysis_def run_analysis_body_def synthesize_response_def final_prompt_def Let_def)

lemma synthesis_fallback_nonempty: "synthesis_fallback \<noteq> []"
  by (simp add: synthesis_fallback_def)

lemma fallbacks_differ: "synthesis_fallback \<noteq> orchestrator_fallback"
  by (simp add: synthesis_fallback_def orchestrator_fallback_def lit_def)

lemma synthesis_fallback_sections:
  "in_order [gist_header, why_header, action_header] synthesis_fallback"
proof -
  have "synthesis_fallback =
          ([128993] @ lit '' MEDIUM RISK'' @ nl @ nl) @ gist_header @
          (lit '' Unable to fully verify this information.'' @ nl @ nl) @ why_header @
          (nl @ [8226] @ lit '' Analysis system temporarily unavailable'' @ nl @
           [8226] @ lit '' Recommend checking with trusted sources'' @ nl @ nl) @ action_header @
          lit '' Verify before sharing''"
    by (simp add: synthesis_fallback_def gist_header_def why_header_def action_header_def lit_def)
  then show ?thesis unfolding in_order_3 by blast
qed

lemma synthesis_fallback_no_trace:
  "\<not> in_order [gist_header, why_header, trace_header, action_header] synthesis_fallback"
proof
  assume "in_order [gist_header, why_header, trace_header, action_header] synthesis_fallback"
  then have "set trace_header \<subseteq> set synthesis_fallback"
    by (rule in_order_set) simp
  then have "128269 \<in> set synthesis_fallback"
    by (auto simp: trace_header_def)
  then show False
    by (simp add: synthesis_fallback_def lit_def)
qed

text \<open>
  Claim C1, as the code has it. \<open>run_analysis\<close> never raises: the statements inside its
  \<open>try\<close> end with a value. That value is the canned report of \<open>synthesize_response\<close> when
  the last call of the reasoning service raises, and the trimmed text of the answer when
  it returns. So the result is the empty string exactly when the service answers the
  last prompt with nothing but white space, and is non-empty in every other case.
\<close>

theorem run_analysis_total:
  "run_analysis_body e text = Inr (run_analysis e text) \<and>
   (case generate_content e (final_prompt e text) of
      Inl err \<Rightarrow> run_analysis e text = synthesis_fallback
    | Inr response_text \<Rightarrow> run_analysis e text = strip response_text) \<and>
   (run_analysis e text = [] \<longleftrightarrow>
      (\<exists>response_text. generate_content e (final_prompt e text) = Inr response_text \<and>
         (\<forall>c\<in>set response_text. isspace c)))"
proof (intro conjI)
  show "run_analysis_body e text = Inr (run_analysis e text)"
    by (simp add: run_analysis_def run_analysis_body_def Let_def)
  show "case generate_content e (final_prompt e text) of
      Inl err \<Rightarrow> run_analysis e text = synthesis_fallback
    | Inr response_text \<Rightarrow> run_analysis e text = strip response_text"
    by (simp add: run_analysis_eq split: sum.splits)
  show "run_analysis e text = [] \<longleftrightarrow>
      (\<exists>response_text. generate_content e (final_prompt e text) = Inr response_text \<and>
         (\<forall>c\<in>set response_text. isspace c))"
    by (cases "generate_content e (final_prompt e text)")
       (simp_all add: run_analysis_eq synthesis_fallback_nonempty strip_Nil_iff)
qed

text \<open>Two runs: total outage, and a service that answers \<open>ok\<close>.\<close>

theorem run_analysis_total_witness:
  "run_analysis_body env_outage (lit ''Drinking bleach cures COVID-19'') = Inr synthesis_fallback \<and>
   run_analysis (env_answering (lit ''ok'')) (lit ''hi'') = lit ''ok''"
  using run_analysis_total [of env_outage "lit ''Drinking bleach cures COVID-19''"]
    run_analysis_total [of "env_answering (lit ''ok'')" "lit ''hi''"]
  by (simp add: env_outage_def env_answering_def strip_def isspace_def lit_def)

text \<open>
  Against C1 as stated: a service that answers every prompt with one blank makes
  \<open>run_analysis\<close> return the empty string.
\<close>

theorem run_analysis_empty_counterexample:
  "run_analysis (env_answering (lit '' '')) (lit ''Drinking bleach cures COVID-19'') = []"
  by (simp add: run_analysis_eq env_answering_def env_outage_def strip_def isspace_def lit_def)

text \<open>
  Claim C2, as the code has it. When the last call of the reasoning service raises, the
  report returned contains the headers \<open>**The Gist:**\<close>, \<open>**Why?**\<close> and \<open>**Action:**\<close>
  in this order; when the call returns, the report is the trimmed text of the answer,
  whatever it contains.
\<close>

theorem run_analysis_sections:
  "(case generate_content e (final_prompt e text) of
      Inl err \<Rightarrow> in_order [gist_header, why_header, action_header] (run_analysis e text)
    | Inr response_text \<Rightarrow> run_analysis e text = strip response_text)"
  by (simp add: run_analysis_eq synthesis_fallback_sections del: in_order.simps split: sum.splits)

text \<open>The three headers in the report of a run under total outage.\<close>

theorem run_analysis_sections_witness:
  "in_order [gist_header, why_header, action_header] (run_analysis env_outage (lit ''hello''))"
  using run_analysis_sections [of env_outage "lit ''hello''"]
  by (simp add: env_outage_def del: in_order.simps)

text \<open>
  Against C2 as stated: under total outage the report has no Trace Report header, so the
  four headers do not occur in it in order.
\<close>

theorem run_analysis_sections_counterexample:
  "\<not> in_order [gist_header, why_header, trace_header, action_header]
       (run_analysis env_outage (lit ''Drinking bleach cures COVID-19''))"
  by (simp add: run_analysis_eq env_outage_def synthesis_fallback_no_trace del: in_order.simps)

text \<open>
  Claim C3, as the code has it. When every call of the reasoning service raises,
  \<open>run_analysis\<close> returns the canned report of \<open>synthesize_response\<close> (the handler of that
  stage catches the exception, so nothing reaches the handler of \<open>run_analysis\<close>), and
  this report differs from the canned report of \<open>run_analysis\<close>.
\<close>

theorem total_outage_fallback:
  assumes "\<forall>prompt. \<exists>err. generate_content e prompt = Inl err"
  shows "run_analysis e text = synthesis_fallback \<and> synthesis_fallback \<noteq> orchestrator_fallback"
proof -
  from assms obtain err where "generate_content e (final_prompt e text) = Inl err" by blast
  then show ?thesis by (simp add: run_analysis_eq fallbacks_differ)
qed

text \<open>The outage environment satisfies the hypothesis.\<close>

theorem total_outage_fallback_witness:
  "(\<forall>prompt. \<exists>err. generate_content env_outage prompt = Inl err) \<and>
   run_analysis env_outage (lit ''hello'') = synthesis_fallback \<and>
   synthesis_fallback \<noteq> orchestrator_fallback"
proof -
  have h: "\<forall>prompt. \<exists>err. generate_content env_outage prompt = Inl err"
    by (simp add: env_outage_def)
  from total_outage_fallback [OF h, of "lit ''hello''"] h show ?thesis by simp
qed

text \<open>
  Against C3 as stated: under total outage the result is not the canned report of
  \<open>run_analysis\<close>.
\<close>

theorem total_outage_counterexample:
  "run_analysis env_outage (lit ''Drinking bleach cures COVID-19'') \<noteq> orchestrator_fallback"
  by (simp add: run_analysis_eq env_outage_def fallbacks_differ)

subsection \<open>Claim extraction\<close>

lemma parse_lines_eq: "parse_lines e ls = map (clean e) (filter (accepts e) (map strip ls))"
  by (induction ls) (simp_all add: Let_def)

lemma accepts_iff: "accepts e line \<longleftrightarrow> (\<exists>c r. line = c # r \<and> (isdigit e c \<or> c = 45))"
  by (cases line) (simp_all add: accepts_def)

lemma sub_numbering_numbered:
  assumes "ds \<noteq> []" "\<forall>c\<in>set ds. isdecimal e c"
  shows "sub_numbering e (ds @ 46 # rest) = dropWhile isspace rest"
proof -
  have n: "\<not> isdecimal e 46" by (simp add: isdecimal_def)
  from assms(2) n have "dropWhile (isdecimal e) (ds @ 46 # rest) = 46 # rest"
    by (simp add: dropWhile_append)
  moreover from assms(2) n have "takeWhile (isdecimal e) (ds @ 46 # rest) = ds"
    by (simp add: takeWhile_append)
  ultimately show ?thesis using assms(1) by (simp add: sub_numbering_def)
qed

lemma sub_numbering_other:
  assumes "takeWhile (isdecimal e) line = [] \<or> \<not> prefix [46] (dropWhile (isdecimal e) line)"
  shows "sub_numbering e line = line"
  using assms by (auto simp: sub_numbering_def split: list.splits)

lemma sub_dash_other: "\<not> prefix [45] line \<Longrightarrow> sub_dash line = line"
  by (auto simp: sub_dash_def split: list.splits)

text \<open>
  Claim C4, as the code has it. When the call of the reasoning service raises,
  \<open>extract_claims\<close> returns the list whose only element is the input text. When the call
  returns, it returns what the line parser makes of the answer: the answer is trimmed
  and split at the line breaks, each line is trimmed, the lines that are accepted (that
  start with a digit or a dash) are kept in order, and each is cleaned. This list is
  non-empty exactly when some line is accepted; an answer without such a line gives the
  empty list.
\<close>

theorem extract_claims_result:
  "(\<forall>err. generate_content e (extract_prompt text) = Inl err \<longrightarrow> extract_claims e text = [text]) \<and>
   (\<forall>response_text. generate_content e (extract_prompt text) = Inr response_text \<longrightarrow>
      extract_claims e text =
        map (clean e) (filter (accepts e) (map strip (split (strip response_text) nl))) \<and>
      (extract_claims e text \<noteq> [] \<longleftrightarrow>
         (\<exists>l\<in>set (split (strip response_text) nl). accepts e (strip l)))) \<and>
   (\<forall>line. accepts e line \<longleftrightarrow> (\<exists>c r. line = c # r \<and> (isdigit e c \<or> c = 45)))"
  by (auto simp: extract_claims_def parse_claims_def parse_lines_eq filter_empty_conv accepts_iff)

text \<open>
  The outage gives the input text back; an answer of two numbered lines gives two claims.
\<close>

theorem extract_claims_result_witness:
  "extract_claims env_outage (lit ''Drinking bleach cures COVID-19'') = [lit ''Drinking bleach cures COVID-19''] \<and>
   extract_claims (env_answering (lit ''1. Bleach cures COVID-19'' @ nl @ lit ''2. It is safe''))
     (lit ''Drinking bleach cures COVID-19'') = [lit ''Bleach cures COVID-19'', lit ''It is safe'']"
proof -
  let ?t = "lit ''Drinking bleach cures COVID-19''"
  let ?a = "lit ''1. Bleach cures COVID-19'' @ nl @ lit ''2. It is safe''"
  have "extract_claims env_outage ?t = [?t]"
    using extract_claims_result [of env_outage ?t] by (simp add: env_outage_def)
  moreover have "extract_claims (env_answering ?a) ?t =
      map (clean (env_answering ?a)) (filter (accepts (env_answering ?a)) (map strip (split (strip ?a) nl)))"
    using extract_claims_result [of "env_answering ?a" ?t] by (simp add: env_answering_def)
  then have "extract_claims (env_answering ?a) ?t = [lit ''Bleach cures COVID-19'', lit ''It is safe'']"
    by (simp add: env_outage_def env_answering_def split_def strip_def isspace_def accepts_def
        isdigit_def isdecimal_def clean_def sub_numbering_def sub_dash_def lit_def)
  ultimately show ?thesis by simp
qed

text \<open>
  Against C4 as stated: an answer in prose, with no list marker on any line, gives the
  empty list of claims.
\<close>

theorem extract_claims_empty_counterexample:
  "extract_claims (env_answering (lit ''No claims found.'')) (lit ''The moon is made of cheese'') = []"
  by (simp add: extract_claims_def parse_claims_def env_outage_def env_answering_def split_def strip_def
      isspace_def accepts_def isdigit_def lit_def)

text \<open>
  Claim C5, as the code has it. The claims are the cleaned forms of the accepted lines,
  in order, among the trimmed lines of the trimmed answer; every other line is dropped.
  A trimmed line is accepted exactly when it is non-empty and its first character is a
  digit or a dash, whatever follows. Cleaning removes a leading run of decimal digits
  with its period and the white space after it, then a leading dash and the white space
  after it, and trims the rest; a line that carries neither prefix is kept whole.
\<close>

theorem parse_claims_lines:
  "parse_claims e response_text =
     map (clean e) (filter (accepts e) (map strip (split (strip response_text) nl))) \<and>
   (accepts e line \<longleftrightarrow> (\<exists>c r. line = c # r \<and> (isdigit e c \<or> c = 45))) \<and>
   (ds \<noteq> [] \<and> (\<forall>c\<in>set ds. isdecimal e c) \<longrightarrow>
      clean e (ds @ 46 # rest) = strip (sub_dash (dropWhile isspace rest))) \<and>
   clean e (45 # rest) = strip (dropWhile isspace rest) \<and>
   ((takeWhile (isdecimal e) line = [] \<or> \<not> prefix [46] (dropWhile (isdecimal e) line)) \<and>
    \<not> prefix [45] line \<longrightarrow> clean e line = strip line)"
proof (intro conjI impI)
  show "parse_claims e response_text =
     map (clean e) (filter (accepts e) (map strip (split (strip response_text) nl)))"
    by (simp add: parse_claims_def parse_lines_eq)
  show "accepts e line \<longleftrightarrow> (\<exists>c r. line = c # r \<and> (isdigit e c \<or> c = 45))"
    by (rule accepts_iff)
  show "clean e (ds @ 46 # rest) = strip (sub_dash (dropWhile isspace rest))"
    if "ds \<noteq> [] \<and> (\<forall>c\<in>set ds. isdecimal e c)"
    using that by (simp add: clean_def sub_numbering_numbered)
  have "sub_numbering e (45 # rest) = 45 # rest"
    by (rule sub_numbering_other) (simp add: isdecimal_def)
  then show "clean e (45 # rest) = strip (dropWhile isspace rest)"
    by (simp add: clean_def sub_dash_def)
  show "clean e line = strip line"
    if "(takeWhile (isdecimal e) line = [] \<or> \<not> prefix [46] (dropWhile (isdecimal e) line)) \<and>
        \<not> prefix [45] line"
    using that by (simp add: clean_def sub_numbering_other sub_dash_other)
qed

text \<open>
  A three-line answer, a line with both markers, and a line that starts with a digit but
  has no period.
\<close>

theorem parse_claims_lines_witness:
  "parse_claims env_outage (lit ''Claims:'' @ nl @ lit '' 1. Bleach cures COVID-19 '' @ nl @ lit ''- It is safe'')
     = [lit ''Bleach cures COVID-19'', lit ''It is safe''] \<and>
   clean env_outage (lit ''12'' @ 46 # lit ''  - x'') = lit ''x'' \<and>
   clean env_outage (lit ''2024 was hot'') = lit ''2024 was hot''"
  using parse_claims_lines [of env_outage
      "lit ''Claims:'' @ nl @ lit '' 1. Bleach cures COVID-19 '' @ nl @ lit ''- It is safe''"
      "lit ''2024 was hot''" "lit ''12''" "lit ''  - x''"]
  by (simp add: env_outage_def split_def strip_def isspace_def accepts_def isdigit_def isdecimal_def
      clean_def sub_numbering_def sub_dash_def lit_def)

text \<open>
  Against C5 as stated: the line \<open>2024 was hot\<close> starts with a digit that no period
  follows and has no dash, and yet it is accepted as a claim, unchanged.
\<close>

theorem parse_claims_marker_counterexample:
  "parse_claims env_outage (lit ''2024 was hot'') = [lit ''2024 was hot''] \<and>
   \<not> spec_accepts env_outage (lit ''2024 was hot'')"
  by (simp add: parse_claims_def spec_accepts_def env_outage_def split_def strip_def isspace_def
      accepts_def isdigit_def isdecimal_def clean_def sub_numbering_def sub_dash_def lit_def)

subsection \<open>Provenance\<close>

text \<open>A split has at least one piece, so \<open>domain_of\<close> never selects from an empty list.\<close>

lemma split_acc_nonempty: "split_acc sep acc s \<noteq> []"
  by (induction sep acc s rule: split_acc.induct) simp_all

lemma split_nonempty: "split s sep \<noteq> []"
  by (simp add: split_def split_acc_nonempty)

lemma str_lt_lexord: "str_lt xs ys \<longleftrightarrow> (xs, ys) \<in> lexord {(a, b). a < b}"
  by (induction xs ys rule: str_lt.induct) auto

lemma str_lt_trans: "str_lt xs ys \<Longrightarrow> str_lt ys zs \<Longrightarrow> str_lt xs zs"
  unfolding str_lt_lexord by (rule lexord_trans) (auto simp: trans_def)

lemma str_lt_linear: "str_lt xs ys \<or> xs = ys \<or> str_lt ys xs"
  unfolding str_lt_lexord by (rule lexord_linear) auto

lemma min_from_least:
  "min_from m ds \<in> set (m # ds) \<and> (\<forall>d\<in>set (m # ds). min_from m ds = d \<or> str_lt (min_from m ds) d)"
proof (induction ds arbitrary: m)
  case Nil
  show ?case by simp
next
  case (Cons d ds)
  let ?m' = "if str_lt d m then d else m"
  let ?r = "min_from ?m' ds"
  from Cons[of ?m'] have mem: "?r \<in> set (?m' # ds)"
    and least: "\<forall>x\<in>set (?m' # ds). ?r = x \<or> str_lt ?r x" by blast+
  from least have rm': "?r = ?m' \<or> str_lt ?r ?m'" by simp
  have rm: "?r = m \<or> str_lt ?r m" and rd: "?r = d \<or> str_lt ?r d"
  proof -
    show "?r = m \<or> str_lt ?r m"
    proof (cases "str_lt d m")
      case True
      with rm' show ?thesis by (auto intro: str_lt_trans)
    next
      case False
      with rm' show ?thesis by simp
    qed
    show "?r = d \<or> str_lt ?r d"
    proof (cases "str_lt d m")
      case True
      with rm' show ?thesis by simp
    next
      case False
      then have "m = d \<or> str_lt m d" using str_lt_linear[of d m] by auto
      with rm' False show ?thesis by (auto intro: str_lt_trans)
    qed
  qed
  from mem have "min_from m (d # ds) \<in> set (m # d # ds)" by (auto split: if_splits)
  moreover from least rm rd have "\<forall>x\<in>set (m # d # ds). min_from m (d # ds) = x \<or> str_lt (min_from m (d # ds)) x"
    by auto
  ultimately show ?case by blast
qed

lemma set_dates_of: "set (dates_of results) = {d. \<exists>r\<in>set results. result_date r = Some d}"
  by (auto simp: dates_of_def split: option.splits)

lemma take_sources_of:
  "\<forall>r\<in>set (take n results). result_link r \<noteq> None \<Longrightarrow>
   take n (sources_of results) = map (\<lambda>r. domain_of (the (result_link r))) (take n results)"
proof (induction results arbitrary: n)
  case Nil
  show ?case by (simp add: sources_of_def)
next
  case (Cons r rs)
  show ?case
  proof (cases n)
    case 0
    then show ?thesis by simp
  next
    case (Suc k)
    with Cons.prems obtain l where l: "result_link r = Some l"
      and rest: "\<forall>r\<in>set (take k rs). result_link r \<noteq> None" by auto
    have "sources_of (r # rs) = domain_of l # sources_of rs"
      by (simp add: sources_of_def l)
    with Cons.IH[OF rest] Suc l show ?thesis by simp
  qed
qed

lemma search_claim_origin_success:
  assumes "serpapi_key e = Some key" "key \<noteq> []"
    "requests_get e ([34] @ take 100 claim @ [34]) key = Inr resp"
    "status_code resp = 200" "json resp = Inr (Some results)"
  shows "search_claim_origin e claim =
    \<lparr>first_seen = earliest (dates_of results), spread_info = spread_pattern (sources_of results)\<rparr>"
  using assms by (simp add: search_claim_origin_def)

text \<open>
  What \<open>domain_of\<close> selects: the text before the first slash of the last piece that the
  split at \<open>//\<close> leaves; and \<open>sources_of\<close> as a map over the results that carry a link.
\<close>

lemma split_acc_no_sep: "\<not> sublist sep s \<Longrightarrow> split_acc sep acc s = [rev acc @ s]"
proof (induction s arbitrary: acc)
  case Nil
  show ?case by simp
next
  case (Cons c cs)
  from Cons.prems have np: "\<not> prefix sep (c # cs)" and ns: "\<not> sublist sep cs"
    by (auto simp: sublist_Cons_right)
  from Cons.IH[OF ns, of "c # acc"] np show ?case by simp
qed

lemma split_acc_first_cut:
  "47 \<notin> set pre \<Longrightarrow>
   split_acc [47, 47] acc (pre @ [47, 47] @ rest) = (rev acc @ pre) # split_acc [47, 47] [] rest"
  by (induction pre arbitrary: acc) auto

lemma hd_split_acc_single: "hd (split_acc [d] acc s) = rev acc @ takeWhile (\<lambda>c. c \<noteq> d) s"
  by (induction s arbitrary: acc) auto

lemma lit_slashes: "lit ''//'' = [47, 47]" "lit ''/'' = [47]"
  by (simp_all add: lit_def)

lemma domain_of_eq: "domain_of link_text = takeWhile (\<lambda>c. c \<noteq> 47) (last (split link_text (lit ''//'')))"
  by (simp add: domain_of_def split_def lit_slashes hd_split_acc_single)

lemma domain_of_plain:
  "\<not> sublist (lit ''//'') link_text \<Longrightarrow> domain_of link_text = takeWhile (\<lambda>c. c \<noteq> 47) link_text"
  by (simp add: domain_of_eq split_def split_acc_no_sep)

lemma domain_of_scheme:
  assumes "47 \<notin> set pre" "\<not> sublist (lit ''//'') rest"
  shows "domain_of (pre @ lit ''//'' @ rest) = takeWhile (\<lambda>c. c \<noteq> 47) rest"
proof -
  from assms(2) have "split_acc [47, 47] [] rest = [rest]"
    using split_acc_no_sep[of "[47, 47]" rest "[]"] by (simp add: lit_slashes)
  with split_acc_first_cut[OF assms(1), of "[]" rest]
  have "split (pre @ lit ''//'' @ rest) (lit ''//'') = [pre, rest]"
    by (simp add: split_def lit_slashes)
  then show ?thesis by (simp add: domain_of_eq)
qed

lemma sources_of_eq:
  "sources_of results =
     map (\<lambda>r. domain_of (the (result_link r))) (filter (\<lambda>r. result_link r \<noteq> None) results)"
  by (induction results) (auto simp: sources_of_def)

text \<open>
  Claim C6, as the code has it. The three ways in which the search fails give three
  different records, each with \<open>first_seen = "Unknown"\<close>: no credential (the variable is
  unset or empty) gives \<open>"Unable to trace origin"\<close>; an exception of the request, or of
  the decoding of the body of an answer with status 200, gives \<open>"Search unavailable"\<close>;
  an answer whose status is not 200, or whose decoded body has no \<open>organic_results\<close>,
  gives \<open>"Unable to trace spread pattern"\<close>. The three texts are pairwise different. An
  answer with status 200 and an empty list of organic results is no failure: it gives
  \<open>"Recently"\<close> and \<open>"Limited sharing detected"\<close>.
\<close>

theorem provenance_failures:
  "(serpapi_key e = None \<or> serpapi_key e = Some [] \<longrightarrow>
      search_claim_origin e claim =
        \<lparr>first_seen = lit ''Unknown'', spread_info = lit ''Unable to trace origin''\<rparr>) \<and>
   (\<forall>key. serpapi_key e = Some key \<and> key \<noteq> [] \<and>
      ((\<exists>err. requests_get e ([34] @ take 100 claim @ [34]) key = Inl err) \<or>
       (\<exists>resp err. requests_get e ([34] @ take 100 claim @ [34]) key = Inr resp \<and>
          status_code resp = 200 \<and> json resp = Inl err)) \<longrightarrow>
      search_claim_origin e claim =
        \<lparr>first_seen = lit ''Unknown'', spread_info = lit ''Search unavailable''\<rparr>) \<and>
   (\<forall>key resp. serpapi_key e = Some key \<and> key \<noteq> [] \<and>
      requests_get e ([34] @ take 100 claim @ [34]) key = Inr resp \<and>
      (status_code resp \<noteq> 200 \<or> json resp = Inr None) \<longrightarrow>
      search_claim_origin e claim =
        \<lparr>first_seen = lit ''Unknown'', spread_info = lit ''Unable to trace spread pattern''\<rparr>) \<and>
   (\<forall>key resp. serpapi_key e = Some key \<and> key \<noteq> [] \<and>
      requests_get e ([34] @ take 100 claim @ [34]) key = Inr resp \<and>
      status_code resp = 200 \<and> json resp = Inr (Some []) \<longrightarrow>
      search_claim_origin e claim =
        \<lparr>first_seen = lit ''Recently'', spread_info = lit ''Limited sharing detected''\<rparr>) \<and>
   lit ''Unable to trace origin'' \<noteq> lit ''Search unavailable'' \<and>
   lit ''Unable to trace origin'' \<noteq> lit ''Unable to trace spread pattern'' \<and>
   lit ''Search unavailable'' \<noteq> lit ''Unable to trace spread pattern''"
proof (intro conjI allI impI)
  show "search_claim_origin e claim =
        \<lparr>first_seen = lit ''Unknown'', spread_info = lit ''Unable to trace origin''\<rparr>"
    if "serpapi_key e = None \<or> serpapi_key e = Some []"
    using that by (auto simp: search_claim_origin_def no_credential_def)
  show "search_claim_origin e claim =
        \<lparr>first_seen = lit ''Unknown'', spread_info = lit ''Search unavailable''\<rparr>"
    if "serpapi_key e = Some key \<and> key \<noteq> [] \<and>
      ((\<exists>err. requests_get e ([34] @ take 100 claim @ [34]) key = Inl err) \<or>
       (\<exists>resp err. requests_get e ([34] @ take 100 claim @ [34]) key = Inr resp \<and>
          status_code resp = 200 \<and> json resp = Inl err))" for key
    using that by (auto simp: search_claim_origin_def search_unavailable_def)
  show "search_claim_origin e claim =
        \<lparr>first_seen = lit ''Unknown'', spread_info = lit ''Unable to trace spread pattern''\<rparr>"
    if "serpapi_key e = Some key \<and> key \<noteq> [] \<and>
      requests_get e ([34] @ take 100 claim @ [34]) key = Inr resp \<and>
      (status_code resp \<noteq> 200 \<or> json resp = Inr None)" for key resp
    using that by (auto simp: search_claim_origin_def no_pattern_def)
  show "search_claim_origin e claim =
        \<lparr>first_seen = lit ''Recently'', spread_info = lit ''Limited sharing detected''\<rparr>"
    if "serpapi_key e = Some key \<and> key \<noteq> [] \<and>
      requests_get e ([34] @ take 100 claim @ [34]) key = Inr resp \<and>
      status_code resp = 200 \<and> json resp = Inr (Some [])" for key resp
    using that
    by (simp add: search_claim_origin_def earliest_def dates_of_def sources_of_def spread_pattern_def)
qed (simp_all add: lit_def)

text \<open>
  The four failing environments: no credential, a raising provider, status 503, and
  status 200 without results.
\<close>

theorem provenance_failures_witness:
  "search_claim_origin env_outage (lit ''Bleach cures COVID-19'') =
     \<lparr>first_seen = lit ''Unknown'', spread_info = lit ''Unable to trace origin''\<rparr> \<and>
   search_claim_origin env_search_raising (lit ''Bleach cures COVID-19'') =
     \<lparr>first_seen = lit ''Unknown'', spread_info = lit ''Search unavailable''\<rparr> \<and>
   search_claim_origin (env_searching \<lparr>status_code = 503, json = Inr None\<rparr>) (lit ''Bleach cures COVID-19'') =
     \<lparr>first_seen = lit ''Unknown'', spread_info = lit ''Unable to trace spread pattern''\<rparr> \<and>
   search_claim_origin (env_searching \<lparr>status_code = 200, json = Inr None\<rparr>) (lit ''Bleach cures COVID-19'') =
     \<lparr>first_seen = lit ''Unknown'', spread_info = lit ''Unable to trace spread pattern''\<rparr>"
  using provenance_failures [of env_outage "lit ''Bleach cures COVID-19''"]
    provenance_failures [of env_search_raising "lit ''Bleach cures COVID-19''"]
    provenance_failures [of "env_searching \<lparr>status_code = 503, json = Inr None\<rparr>" "lit ''Bleach cures COVID-19''"]
    provenance_failures [of "env_searching \<lparr>status_code = 200, json = Inr None\<rparr>" "lit ''Bleach cures COVID-19''"]
  by (simp add: env_outage_def env_search_raising_def env_searching_def lit_def)

text \<open>
  Against C6 as stated: a body that cannot be decoded (a malformed response) gives
  \<open>"Search unavailable"\<close>, and an empty list of results (an empty response) gives
  \<open>"Recently"\<close> and \<open>"Limited sharing detected"\<close>; neither gives
  \<open>"Unable to trace spread pattern"\<close>.
\<close>

theorem provenance_malformed_counterexample:
  "search_claim_origin (env_searching \<lparr>status_code = 200, json = Inl DependencyError\<rparr>)
      (lit ''Bleach cures COVID-19'') =
     \<lparr>first_seen = lit ''Unknown'', spread_info = lit ''Search unavailable''\<rparr> \<and>
   search_claim_origin (env_searching \<lparr>status_code = 200, json = Inr (Some [])\<rparr>)
      (lit ''Bleach cures COVID-19'') =
     \<lparr>first_seen = lit ''Recently'', spread_info = lit ''Limited sharing detected''\<rparr> \<and>
   lit ''Search unavailable'' \<noteq> lit ''Unable to trace spread pattern'' \<and>
   lit ''Limited sharing detected'' \<noteq> lit ''Unable to trace spread pattern'' \<and>
   lit ''Recently'' \<noteq> lit ''Unknown''"
  by (simp add: search_claim_origin_def env_searching_def env_outage_def search_unavailable_def
      earliest_def dates_of_def sources_of_def spread_pattern_def lit_def)

text \<open>
  Claim C7, as the code has it. After a successful search that returns organic results,
  the spread is classified by the number of distinct values among the first five
  entries of the list that holds, for each result that carries a link and in the order
  of the results, the host value of this link; a result without a link is skipped. More
  than three distinct values give \<open>"Widely shared across multiple platforms"\<close>, two or
  three give \<open>"Shared on a few platforms"\<close>, at most one gives
  \<open>"Limited sharing detected"\<close>. When each of the first five results carries a link, the
  five entries are the host values of the first five results. The host value of a link
  is the text before the first slash of the last piece of the link split at \<open>//\<close>: for a
  link without \<open>//\<close> the text before its first slash, and for a link made of a scheme
  without slash, \<open>//\<close> and a rest without \<open>//\<close>, the text of the rest before its first
  slash.
\<close>

theorem spread_classification:
  assumes "serpapi_key e = Some key" "key \<noteq> []"
    "requests_get e ([34] @ take 100 claim @ [34]) key = Inr resp"
    "status_code resp = 200" "json resp = Inr (Some results)"
  shows "(let sampled = take 5 (map (\<lambda>r. domain_of (the (result_link r)))
                                  (filter (\<lambda>r. result_link r \<noteq> None) results))
          in (3 < card (set sampled) \<longrightarrow>
                spread_info (search_claim_origin e claim) = lit ''Widely shared across multiple platforms'') \<and>
             (card (set sampled) \<in> {2, 3} \<longrightarrow>
                spread_info (search_claim_origin e claim) = lit ''Shared on a few platforms'') \<and>
             (card (set sampled) \<le> 1 \<longrightarrow>
                spread_info (search_claim_origin e claim) = lit ''Limited sharing detected'') \<and>
             ((\<forall>r\<in>set (take 5 results). result_link r \<noteq> None) \<longrightarrow>
                sampled = map (\<lambda>r. domain_of (the (result_link r))) (take 5 results))) \<and>
         (\<forall>link_text. domain_of link_text =
            takeWhile (\<lambda>c. c \<noteq> 47) (last (split link_text (lit ''//'')))) \<and>
         (\<forall>link_text. \<not> sublist (lit ''//'') link_text \<longrightarrow>
            domain_of link_text = takeWhile (\<lambda>c. c \<noteq> 47) link_text) \<and>
         (\<forall>pre rest. 47 \<notin> set pre \<and> \<not> sublist (lit ''//'') rest \<longrightarrow>
            domain_of (pre @ lit ''//'' @ rest) = takeWhile (\<lambda>c. c \<noteq> 47) rest)"
proof -
  have "spread_info (search_claim_origin e claim) = spread_pattern (sources_of results)"
    using search_claim_origin_success[OF assms] by simp
  moreover have "(\<forall>r\<in>set (take 5 results). result_link r \<noteq> None) \<longrightarrow>
      take 5 (sources_of results) = map (\<lambda>r. domain_of (the (result_link r))) (take 5 results)"
    by (simp add: take_sources_of)
  ultimately have "let sampled = take 5 (sources_of results)
          in (3 < card (set sampled) \<longrightarrow>
                spread_info (search_claim_origin e claim) = lit ''Widely shared across multiple platforms'') \<and>
             (card (set sampled) \<in> {2, 3} \<longrightarrow>
                spread_info (search_claim_origin e claim) = lit ''Shared on a few platforms'') \<and>
             (card (set sampled) \<le> 1 \<longrightarrow>
                spread_info (search_claim_origin e claim) = lit ''Limited sharing detected'') \<and>
             ((\<forall>r\<in>set (take 5 results). result_link r \<noteq> None) \<longrightarrow>
                sampled = map (\<lambda>r. domain_of (the (result_link r))) (take 5 results))"
    by (auto simp: spread_pattern_def Let_def)
  then show ?thesis
    unfolding sources_of_eq using domain_of_eq domain_of_plain domain_of_scheme by blast
qed

text \<open>
  Claim C8. After a successful search that returns organic results, \<open>first_seen\<close> is
  \<open>"Recently"\<close> when no result carries a date; otherwise it is one of the dates carried
  by the results and is equal to or lexicographically smaller than (code point by code
  point) every one of them.
\<close>

theorem first_seen_minimum:
  assumes "serpapi_key e = Some key" "key \<noteq> []"
    "requests_get e ([34] @ take 100 claim @ [34]) key = Inr resp"
    "status_code resp = 200" "json resp = Inr (Some results)"
  shows "set (dates_of results) = {d. \<exists>r\<in>set results. result_date r = Some d} \<and>
         (dates_of results = [] \<longrightarrow> first_seen (search_claim_origin e claim) = lit ''Recently'') \<and>
         (dates_of results \<noteq> [] \<longrightarrow>
            first_seen (search_claim_origin e claim) \<in> set (dates_of results) \<and>
            (\<forall>d\<in>set (dates_of results).
               first_seen (search_claim_origin e claim) = d \<or>
               (first_seen (search_claim_origin e claim), d) \<in> lexord {(a, b). a < b}))"
proof -
  have fs: "first_seen (search_claim_origin e claim) = earliest (dates_of results)"
    using search_claim_origin_success[OF assms] by simp
  show ?thesis
  proof (cases "dates_of results")
    case Nil
    with fs show ?thesis by (simp add: earliest_def set_dates_of[symmetric])
  next
    case (Cons d ds)
    with fs have "first_seen (search_claim_origin e claim) = min_from d ds"
      by (simp add: earliest_def)
    with min_from_least[of d ds] Cons show ?thesis
      by (simp add: set_dates_of[symmetric] str_lt_lexord)
  qed
qed


text \<open>
  Five sampled host names of which four are distinct, three of which two are distinct,
  and a single one.
\<close>

theorem spread_classification_witness:
  "spread_info (search_claim_origin (env_searching \<lparr>status_code = 200, json = Inr (Some example_results)\<rparr>)
      (lit ''Bleach cures COVID-19'')) = lit ''Widely shared across multiple platforms'' \<and>
   spread_info (search_claim_origin (env_searching \<lparr>status_code = 200, json = Inr (Some (take 3 example_results))\<rparr>)
      (lit ''Bleach cures COVID-19'')) = lit ''Shared on a few platforms'' \<and>
   spread_info (search_claim_origin (env_searching \<lparr>status_code = 200, json = Inr (Some [hd example_results])\<rparr>)
      (lit ''Bleach cures COVID-19'')) = lit ''Limited sharing detected'' \<and>
   take 5 (sources_of example_results) = [lit ''a.in'', lit ''b.in'', lit ''a.in'', lit ''c.in'', lit ''d.in'']"
proof -
  let ?c = "lit ''Bleach cures COVID-19''"
  have src: "sources_of example_results = [lit ''a.in'', lit ''b.in'', lit ''a.in'', lit ''c.in'', lit ''d.in'', lit ''e.in'']"
    by (simp add: sources_of_def example_results_def domain_of_def split_def lit_def)
  have src3: "sources_of (take 3 example_results) = [lit ''a.in'', lit ''b.in'', lit ''a.in'']"
    by (simp add: sources_of_def example_results_def domain_of_def split_def lit_def)
  have src1: "sources_of [hd example_results] = [lit ''a.in'']"
    by (simp add: sources_of_def example_results_def domain_of_def split_def lit_def)
  have k: "lit ''k3y'' \<noteq> []" by (simp add: lit_def)
  have "take 5 (sources_of example_results) = [lit ''a.in'', lit ''b.in'', lit ''a.in'', lit ''c.in'', lit ''d.in'']"
    by (simp add: src)
  then have "card (set (take 5 (sources_of example_results))) =
      length (remdups [lit ''a.in'', lit ''b.in'', lit ''a.in'', lit ''c.in'', lit ''d.in''])"
    by (simp only: card_set)
  then have "card (set (take 5 (sources_of example_results))) = 4"
    by (simp add: lit_def)
  then have c5: "card (set (take 5 (map (\<lambda>r. domain_of (the (result_link r)))
      (filter (\<lambda>r. result_link r \<noteq> None) example_results)))) = 4"
    by (simp only: sources_of_eq)
  have "take 5 (sources_of (take 3 example_results)) = [lit ''a.in'', lit ''b.in'', lit ''a.in'']"
    by (simp add: src3)
  then have "card (set (take 5 (sources_of (take 3 example_results)))) =
      length (remdups [lit ''a.in'', lit ''b.in'', lit ''a.in''])"
    by (simp only: card_set)
  then have "card (set (take 5 (sources_of (take 3 example_results)))) = 2"
    by (simp add: lit_def)
  then have c3: "card (set (take 5 (map (\<lambda>r. domain_of (the (result_link r)))
      (filter (\<lambda>r. result_link r \<noteq> None) (take 3 example_results))))) = 2"
    by (simp only: sources_of_eq)
  have "card (set (take 5 (sources_of [hd example_results]))) = 1"
    by (simp add: src1)
  then have c1: "card (set (take 5 (map (\<lambda>r. domain_of (the (result_link r)))
      (filter (\<lambda>r. result_link r \<noteq> None) [hd example_results])))) = 1"
    by (simp only: sources_of_eq)
  note a = spread_classification [of "env_searching \<lparr>status_code = 200, json = Inr (Some example_results)\<rparr>"
      "lit ''k3y''" ?c "\<lparr>status_code = 200, json = Inr (Some example_results)\<rparr>" example_results,
      unfolded Let_def, THEN conjunct1]
  note b = spread_classification [of "env_searching \<lparr>status_code = 200, json = Inr (Some (take 3 example_results))\<rparr>"
      "lit ''k3y''" ?c "\<lparr>status_code = 200, json = Inr (Some (take 3 example_results))\<rparr>" "take 3 example_results",
      unfolded Let_def, THEN conjunct1]
  note c = spread_classification [of "env_searching \<lparr>status_code = 200, json = Inr (Some [hd example_results])\<rparr>"
      "lit ''k3y''" ?c "\<lparr>status_code = 200, json = Inr (Some [hd example_results])\<rparr>" "[hd example_results]",
      unfolded Let_def, THEN conjunct1]
  have "spread_info (search_claim_origin (env_searching \<lparr>status_code = 200, json = Inr (Some example_results)\<rparr>) ?c)
      = lit ''Widely shared across multiple platforms''"
    using a k unfolding c5 by (simp add: env_searching_def env_outage_def)
  moreover have "spread_info (search_claim_origin (env_searching \<lparr>status_code = 200, json = Inr (Some (take 3 example_results))\<rparr>) ?c)
      = lit ''Shared on a few platforms''"
    using b k unfolding c3 by (simp add: env_searching_def env_outage_def)
  moreover have "spread_info (search_claim_origin (env_searching \<lparr>status_code = 200, json = Inr (Some [hd example_results])\<rparr>) ?c)
      = lit ''Limited sharing detected''"
    using c k unfolding c1 by (simp add: env_searching_def env_outage_def)
  ultimately show ?thesis by (simp add: src)
qed

text \<open>
  Against C7 as stated: of six results the first has no link; the first five results are
  on three hosts, which the rule of the claim calls shared on a few platforms, and the
  code, sampling the first five links, finds four hosts and says widely shared. And the
  value taken from a link that carries a second \<open>//\<close> is not its host name.
\<close>

theorem spread_sample_counterexample:
  "spread_info (search_claim_origin (env_searching \<lparr>status_code = 200, json = Inr (Some unlinked_results)\<rparr>)
      (lit ''Bleach cures COVID-19'')) = lit ''Widely shared across multiple platforms'' \<and>
   spec_spread unlinked_results = lit ''Shared on a few platforms'' \<and>
   domain_of (lit ''https://a.in/r?u=https://b.in/x'') = lit ''b.in''"
proof -
  have src: "sources_of unlinked_results = [lit ''a.in'', lit ''b.in'', lit ''c.in'', lit ''c.in'', lit ''d.in'']"
    by (simp add: sources_of_def unlinked_results_def domain_of_def split_def lit_def)
  have "card (set (take 5 (sources_of unlinked_results))) =
      length (remdups [lit ''a.in'', lit ''b.in'', lit ''c.in'', lit ''c.in'', lit ''d.in''])"
    unfolding src by (simp only: card_set take_all_iff length_Cons list.size) simp
  then have c: "card (set (take 5 (sources_of unlinked_results))) = 4"
    by (simp add: lit_def)
  have "spread_info (search_claim_origin (env_searching \<lparr>status_code = 200, json = Inr (Some unlinked_results)\<rparr>)
      (lit ''Bleach cures COVID-19'')) = spread_pattern (sources_of unlinked_results)"
    by (simp add: search_claim_origin_def env_searching_def env_outage_def lit_def)
  with c have a: "spread_info (search_claim_origin (env_searching \<lparr>status_code = 200, json = Inr (Some unlinked_results)\<rparr>)
      (lit ''Bleach cures COVID-19'')) = lit ''Widely shared across multiple platforms''"
    by (simp add: spread_pattern_def)
  have five: "[domain_of l. r \<leftarrow> take 5 unlinked_results,
                        l \<leftarrow> (case result_link r of None \<Rightarrow> [] | Some l \<Rightarrow> [l])]
      = [lit ''a.in'', lit ''b.in'', lit ''c.in'', lit ''c.in'']"
    by (simp add: unlinked_results_def domain_of_def split_def lit_def)
  have "card (set [lit ''a.in'', lit ''b.in'', lit ''c.in'', lit ''c.in'']) =
      length (remdups [lit ''a.in'', lit ''b.in'', lit ''c.in'', lit ''c.in''])"
    by (simp only: card_set)
  then have "card (set [lit ''a.in'', lit ''b.in'', lit ''c.in'', lit ''c.in'']) = 3"
    by (simp add: lit_def)
  then have b: "spec_spread unlinked_results = lit ''Shared on a few platforms''"
    unfolding spec_spread_def five by (simp add: Let_def)
  have d: "domain_of (lit ''https://a.in/r?u=https://b.in/x'') = lit ''b.in''"
    by (simp add: domain_of_def split_def lit_def)
  from a b d show ?thesis by simp
qed

text \<open>
  Three dated results, of which the second carries the smallest date, and a search with
  no result at all.
\<close>

theorem first_seen_minimum_witness:
  "first_seen (search_claim_origin (env_searching \<lparr>status_code = 200, json = Inr (Some example_results)\<rparr>)
      (lit ''Bleach cures COVID-19'')) = lit ''2020-12-24'' \<and>
   lit ''2020-12-24'' \<in> set (dates_of example_results) \<and>
   (lit ''2020-12-24'', lit ''2021-03-01'') \<in> lexord {(a, b). a < b} \<and>
   (lit ''2020-12-24'', lit ''2021-01-05'') \<in> lexord {(a, b). a < b} \<and>
   first_seen (search_claim_origin (env_searching \<lparr>status_code = 200, json = Inr (Some [])\<rparr>)
      (lit ''Bleach cures COVID-19'')) = lit ''Recently''"
proof -
  let ?c = "lit ''Bleach cures COVID-19''"
  let ?full = "\<lparr>status_code = 200, json = Inr (Some example_results)\<rparr>"
  let ?emp = "\<lparr>status_code = 200, json = Inr (Some [])\<rparr>"
  have k: "lit ''k3y'' \<noteq> []" by (simp add: lit_def)
  have d: "dates_of example_results = [lit ''2021-03-01'', lit ''2020-12-24'', lit ''2021-01-05'']"
    by (simp add: dates_of_def example_results_def)
  have fs: "first_seen (search_claim_origin (env_searching ?full) ?c) = lit ''2020-12-24''"
    by (simp add: search_claim_origin_def env_searching_def env_outage_def d earliest_def lit_def)
  have a: "set (dates_of example_results) = {d. \<exists>r\<in>set example_results. result_date r = Some d} \<and>
         (dates_of example_results = [] \<longrightarrow> first_seen (search_claim_origin (env_searching ?full) ?c) = lit ''Recently'') \<and>
         (dates_of example_results \<noteq> [] \<longrightarrow>
            first_seen (search_claim_origin (env_searching ?full) ?c) \<in> set (dates_of example_results) \<and>
            (\<forall>d\<in>set (dates_of example_results).
               first_seen (search_claim_origin (env_searching ?full) ?c) = d \<or>
               (first_seen (search_claim_origin (env_searching ?full) ?c), d) \<in> lexord {(a, b). a < b}))"
    by (rule first_seen_minimum [where key = "lit ''k3y''" and resp = ?full])
       (simp_all add: env_searching_def k)
  have b: "set (dates_of []) = {d. \<exists>r\<in>set ([] :: search_result list). result_date r = Some d} \<and>
         (dates_of [] = [] \<longrightarrow> first_seen (search_claim_origin (env_searching ?emp) ?c) = lit ''Recently'') \<and>
         (dates_of [] \<noteq> [] \<longrightarrow>
            first_seen (search_claim_origin (env_searching ?emp) ?c) \<in> set (dates_of []) \<and>
            (\<forall>d\<in>set (dates_of []).
               first_seen (search_claim_origin (env_searching ?emp) ?c) = d \<or>
               (first_seen (search_claim_origin (env_searching ?emp) ?c), d) \<in> lexord {(a, b). a < b}))"
    by (rule first_seen_minimum [where key = "lit ''k3y''" and resp = ?emp])
       (simp_all add: env_searching_def k)
  have ne: "dates_of example_results \<noteq> []" by (simp add: d)
  have e: "dates_of ([] :: search_result list) = []" by (simp add: dates_of_def)
  from a ne have m: "first_seen (search_claim_origin (env_searching ?full) ?c) \<in> set (dates_of example_results) \<and>
     (\<forall>d\<in>set (dates_of example_results).
        first_seen (search_claim_origin (env_searching ?full) ?c) = d \<or>
        (first_seen (search_claim_origin (env_searching ?full) ?c), d) \<in> lexord {(a, b). a < b})"
    by blast
  have m': "lit ''2020-12-24'' \<in> set (dates_of example_results) \<and>
     (\<forall>d\<in>set (dates_of example_results).
        lit ''2020-12-24'' = d \<or> (lit ''2020-12-24'', d) \<in> lexord {(a, b). a < b})"
    using m unfolding fs .
  have n1: "lit ''2020-12-24'' \<noteq> lit ''2021-03-01''" and n2: "lit ''2020-12-24'' \<noteq> lit ''2021-01-05''"
    by (simp_all add: lit_def)
  have "lit ''2021-03-01'' \<in> set (dates_of example_results)"
    and "lit ''2021-01-05'' \<in> set (dates_of example_results)"
    by (simp_all add: d)
  with m' n1 n2 have "lit ''2020-12-24'' \<in> set (dates_of example_results) \<and>
     (lit ''2020-12-24'', lit ''2021-03-01'') \<in> lexord {(a, b). a < b} \<and>
     (lit ''2020-12-24'', lit ''2021-01-05'') \<in> lexord {(a, b). a < b}"
    by blast
  moreover from b e have "first_seen (search_claim_origin (env_searching ?emp) ?c) = lit ''Recently''"
    by blast
  ultimately show ?thesis using fs by blast
qed

subsection \<open>Evidence retrieval\<close>







text \<open>
  Claim C10 fails on the code. With a corpus of two passages and an index that answers
  \<open>[0, -1]\<close> (the padding of a search that finds fewer than \<open>k\<close> neighbours), the index
  \<open>-1\<close> passes the guard \<open>idx < len(knowledge_base)\<close> and \<open>knowledge_base[-1]\<close>, the last
  passage, is appended; the index \<open>-3\<close> passes the guard as well and the lookup raises
  \<open>IndexError\<close>.
\<close>

theorem negative_index_appended:
  "retrieve_relevant_context (env_retrieving [lit ''p0'', lit ''p1''] [0, - 1]) [lit ''a'']
     = [lit ''p0'', lit ''p1''] \<and>
   append_contexts [lit ''p0'', lit ''p1''] [] [- 1] = Inr [lit ''p1''] \<and>
   append_contexts [lit ''p0'', lit ''p1''] [] [- 3] = Inl IndexError"
  by (simp add: retrieve_relevant_context_def env_retrieving_def env_outage_def getitem_def)

end
